theory Spec2Isabelle
  imports Main "HOL-Library.Monad_Syntax" "HOL-Library.Sublist"
begin

section \<open>The request executor and the auth coordinator of go-powerwall\<close>

text \<open>
  The model follows client.go (httpDo, doHttpRequest, apiGetJson, apiPostJson, SetRetry) and
  auth.go (DoLogin, checkLogin, GetAuthToken, SetAuthToken, doAuthMsg, performLogin).

  Everything the Go code takes from its surroundings is explicit:
  \<^item> the gateway is the field \<open>httpClient\<close> of the client: the outcome of the n-th call of
    \<open>httpClient.Do\<close> on a request, and the time that call takes, in the unit of the clock;
  \<^item> the clock read by \<open>time.Now\<close> is the field \<open>now\<close> of the world; it advances during
    \<open>httpClient.Do\<close> and \<open>time.Sleep\<close> only;
  \<^item> the variable \<open>authToken\<close> owned by the goroutine \<open>authManager\<close> is a field of the world;
    the model follows one caller: a message it sends on \<open>auth_ch\<close> is handled by \<open>doAuthMsg\<close>
    before it goes on, and its read of \<open>token_ch\<close> yields the variable;
  \<^item> other goroutines use the same client: before each exchange of the caller with the
    coordinator (a send on \<open>auth_ch\<close>, a read of \<open>token_ch\<close>) the coordinator may have served
    their messages (SetAuthToken, DoLogin, checkLogin), which leave some token or other in
    the variable; the field \<open>others\<close> of the world lists, exchange by exchange, the token they
    leave (\<open>None\<close> when they do nothing);
  \<^item> encoding/json, http.NewRequest, the cookie sanitising of net/http and fmt are
    parameters (record \<open>stdlib\<close>);
  \<^item> every call of \<open>httpDo\<close> and \<open>httpClient.Do\<close>, every sleep and every communication with the
    coordinator is appended to \<open>events\<close>, together with the coordinator's token at that moment.
  Debug logging (\<open>logf\<close>) has no effect on results and is left out.
\<close>

subsection \<open>Data\<close>

record url =
  Scheme :: string
  Host :: string
  Path :: string

datatype error =
    NetError string
  | OtherError string
  | ErrorNew string
  | AuthFailure url string string
  | ApiError url int string

record request =
  Method :: string
  URL :: url
  ReqBody :: "string option"
  ContentType :: "string option"
  Cookies :: "(string \<times> string) list"

record response =
  StatusCode :: int
  Body :: "error + string"

datatype action = cmd_DO_LOGIN | cmd_CHECK_LOGIN | cmd_SET_TOKEN

record authMessage =
  action :: action
  email :: string
  password :: string
  token :: string

datatype reply = NoReply | Reply "error option"

record loginData =
  Username :: string
  Email :: string
  Password :: string
  ForceSmOff :: bool

record loginResponse =
  lr_Email :: string
  lr_FirstName :: string
  lr_LastName :: string
  lr_Roles :: "string list"
  lr_Token :: string
  lr_Provider :: string
  lr_loginTime :: string

record errorResponse =
  er_Code :: int
  er_Error :: string
  er_Message :: string

record client =
  gatewayAddress :: string
  gatewayLoginEmail :: string
  gatewayLoginPassword :: string
  httpClient :: "nat \<Rightarrow> request \<Rightarrow> (error + response) \<times> nat"
  retryInterval :: int
  retryTimeout :: int

record stdlib =
  NewRequest_check :: "string \<Rightarrow> url \<Rightarrow> error option"
  Marshal_loginData :: "loginData \<Rightarrow> error + string"
  Unmarshal_loginResponse :: "string \<Rightarrow> loginResponse \<Rightarrow> error option \<times> loginResponse"
  Unmarshal_errorResponse :: "string \<Rightarrow> errorResponse \<Rightarrow> error option \<times> errorResponse"
  sanitizeCookieName :: "string \<Rightarrow> string"
  sanitizeCookieValue :: "string \<Rightarrow> string"

datatype event =
    HttpDo request
  | Sent nat request
  | Slept int
  | AuthMsg action
  | TokenRead
  | ErrFunc string string error

record world =
  now :: int
  authToken :: string
  ndo :: nat
  events :: "(string \<times> event) list"
  others :: "string option list"

definition emit :: "event \<Rightarrow> world \<Rightarrow> world" where
  "emit e w = w\<lparr>events := events w @ [(authToken w, e)]\<rparr>"

subsection \<open>client.go: SetRetry and httpDo\<close>

definition SetRetry :: "client \<Rightarrow> int \<Rightarrow> int \<Rightarrow> client" where
  "SetRetry c interval timeout = c\<lparr>retryInterval := interval, retryTimeout := timeout\<rparr>"

definition client_Do :: "client \<Rightarrow> request \<Rightarrow> world \<Rightarrow> (error + response) \<times> world" where
  "client_Do c req w =
     (case httpClient c (ndo w) req of
        (r, took) \<Rightarrow> (r, (emit (Sent (ndo w) req) w)\<lparr>now := now w + int took, ndo := Suc (ndo w)\<rparr>))"

text \<open>
  \<open>time.Duration\<close> is a signed 64-bit count of nanoseconds. The fields \<open>retryInterval\<close> and
  \<open>retryTimeout\<close> hold such values (\<open>int64\<close>); subtracting two durations wraps around
  (\<open>wrap64\<close>), and \<open>Time.Sub\<close> returns the largest or least duration when the difference of
  two clock readings does not fit (\<open>sat64\<close>).
\<close>

definition int64 :: "int \<Rightarrow> bool" where
  "int64 x = (- (2 ^ 63) \<le> x \<and> x < 2 ^ 63)"

definition wrap64 :: "int \<Rightarrow> int" where
  "wrap64 x = (x + 2 ^ 63) mod 2 ^ 64 - 2 ^ 63"

definition sat64 :: "int \<Rightarrow> int" where
  "sat64 x = (if 2 ^ 63 - 1 < x then 2 ^ 63 - 1 else if x < - (2 ^ 63) then - (2 ^ 63) else x)"

definition time_Sub :: "int \<Rightarrow> int \<Rightarrow> int" where
  "time_Sub t u = sat64 (t - u)"

text \<open>\<open>time.Sleep\<close> returns at once when its argument is zero or negative.\<close>

definition time_Sleep :: "int \<Rightarrow> world \<Rightarrow> world" where
  "time_Sleep d w = (emit (Slept d) w)\<lparr>now := now w + max 0 d\<rparr>"

text \<open>The type assertion \<open>err.(net.Error)\<close>; it fails on a nil error.\<close>

fun is_net_Error :: "error + response \<Rightarrow> bool" where
  "is_net_Error (Inl (NetError _)) = True"
| "is_net_Error _ = False"

partial_function (option) httpDo_loop ::
  "client \<Rightarrow> request \<Rightarrow> int \<Rightarrow> world \<Rightarrow> ((error + response) \<times> world) option" where
  "httpDo_loop c req start_time w =
     (let attempt_time = now w;
          rw = client_Do c req w in
      if \<not> is_net_Error (fst rw) then Some rw
      else if time_Sub (now (snd rw)) start_time \<ge> retryTimeout c then Some rw
      else httpDo_loop c req start_time
             (time_Sleep (wrap64 (retryInterval c - time_Sub (now (snd rw)) attempt_time))
                (snd rw)))"

declare httpDo_loop.simps [code]

definition httpDo :: "client \<Rightarrow> request \<Rightarrow> world \<Rightarrow> ((error + response) \<times> world) option" where
  "httpDo c req w = httpDo_loop c req (now w) (emit (HttpDo req) w)"

subsection \<open>auth.go: reading the token\<close>

text \<open>
  What the other callers have done to the token by the time of the caller's next exchange
  with the coordinator.
\<close>

definition exchange :: "world \<Rightarrow> world" where
  "exchange w =
     (case others w of
        [] \<Rightarrow> w
      | None # rest \<Rightarrow> w\<lparr>others := rest\<rparr>
      | Some t # rest \<Rightarrow> w\<lparr>authToken := t, others := rest\<rparr>)"

definition GetAuthToken :: "world \<Rightarrow> string \<times> world" where
  "GetAuthToken w = (authToken (exchange w), emit TokenRead (exchange w))"

subsection \<open>client.go: doHttpRequest\<close>

definition new_request ::
  "stdlib \<Rightarrow> string \<Rightarrow> url \<Rightarrow> string option \<Rightarrow> string \<Rightarrow> error + request" where
  "new_request L method u payload contentType =
     (case NewRequest_check L method u of
        Some e \<Rightarrow> Inl e
      | None \<Rightarrow> Inr \<lparr>Method = method, URL = u, ReqBody = payload,
                     ContentType = (case payload of None \<Rightarrow> None | Some _ \<Rightarrow> Some contentType),
                     Cookies = []\<rparr>)"

text \<open>
  \<open>Request.AddCookie\<close> appends the cookie to the header Cookie, its name and value
  sanitised by net/http.
\<close>

definition AddCookie :: "stdlib \<Rightarrow> string \<Rightarrow> string \<Rightarrow> request \<Rightarrow> request" where
  "AddCookie L name val req =
     req\<lparr>Cookies := Cookies req @ [(sanitizeCookieName L name, sanitizeCookieValue L val)]\<rparr>"

definition Header_Del_Cookie :: "request \<Rightarrow> request" where
  "Header_Del_Cookie req = req\<lparr>Cookies := []\<rparr>"

definition is_auth_status :: "int \<Rightarrow> bool" where
  "is_auth_status code = (code = 401 \<or> code = 403)"

text \<open>The end of doHttpRequest: reading the body and classifying the status.\<close>

definition read_response :: "stdlib \<Rightarrow> url \<Rightarrow> response \<Rightarrow> string option \<times> error option" where
  "read_response L u resp =
     (case Body resp of
        Inl e \<Rightarrow> (None, Some e)
      | Inr body \<Rightarrow>
          if is_auth_status (StatusCode resp) then
            (let errInfo = snd (Unmarshal_errorResponse L body
                                  \<lparr>er_Code = 0, er_Error = [], er_Message = []\<rparr>)
             in (None, Some (AuthFailure u (er_Error errInfo) (er_Message errInfo))))
          else if StatusCode resp < 200 \<or> StatusCode resp \<ge> 300 then
            (Some body, Some (ApiError u (StatusCode resp) body))
          else (Some body, None))"

definition api_url :: "client \<Rightarrow> string \<Rightarrow> url" where
  "api_url c api = \<lparr>Scheme = ''https'', Host = gatewayAddress c, Path = ''api/'' @ api\<rparr>"

text \<open>
  doHttpRequest calls DoLogin, and DoLogin reaches doHttpRequest again through performLogin and
  apiPostJson (with the path login/Basic, which never logs in). The cycle is cut by taking
  the call \<open>c.DoLogin()\<close> as the parameter \<open>relogin\<close>.
\<close>

definition doHttpRequest_body ::
  "(world \<Rightarrow> (error option \<times> world) option) \<Rightarrow> stdlib \<Rightarrow> client \<Rightarrow> string \<Rightarrow> string \<Rightarrow>
   string option \<Rightarrow> string \<Rightarrow> world \<Rightarrow> ((string option \<times> error option) \<times> world) option" where
  "doHttpRequest_body relogin L c api method payload contentType w =
     (let u = api_url c api in
      case new_request L method u payload contentType of
        Inl e \<Rightarrow> Some ((None, Some e), w)
      | Inr req \<Rightarrow>
          if prefix ''login/'' api then
            (case httpDo c req w of
               None \<Rightarrow> None
             | Some (Inl e, w1) \<Rightarrow> Some ((None, Some e), w1)
             | Some (Inr resp, w1) \<Rightarrow> Some (read_response L u resp, w1))
          else
            (let tw = GetAuthToken w;
                 req1 = (if fst tw \<noteq> [] then AddCookie L ''AuthCookie'' (fst tw) req else req) in
             case httpDo c req1 (snd tw) of
               None \<Rightarrow> None
             | Some (Inl e, w1) \<Rightarrow> Some ((None, Some e), w1)
             | Some (Inr resp, w1) \<Rightarrow>
                 if is_auth_status (StatusCode resp) then
                   (case relogin w1 of
                      None \<Rightarrow> None
                    | Some (Some e, w2) \<Rightarrow> Some ((None, Some e), w2)
                    | Some (None, w2) \<Rightarrow>
                        (let tw2 = GetAuthToken w2;
                             req2 = AddCookie L ''AuthCookie'' (fst tw2) (Header_Del_Cookie req1) in
                         case httpDo c req2 (snd tw2) of
                           None \<Rightarrow> None
                         | Some (Inl e, w3) \<Rightarrow> Some ((None, Some e), w3)
                         | Some (Inr resp2, w3) \<Rightarrow> Some (read_response L u resp2, w3)))
                 else Some (read_response L u resp, w1)))"

definition jsonError :: "string \<Rightarrow> string \<Rightarrow> error \<Rightarrow> world \<Rightarrow> world" where
  "jsonError api dat err w = emit (ErrFunc api dat err) w"

definition apiPostJson_body ::
  "(world \<Rightarrow> (error option \<times> world) option) \<Rightarrow> stdlib \<Rightarrow> client \<Rightarrow> string \<Rightarrow>
   (error + string) \<Rightarrow> (string \<Rightarrow> 'r \<Rightarrow> error option \<times> 'r) \<Rightarrow> 'r \<Rightarrow> world \<Rightarrow>
   ((error option \<times> 'r) \<times> world) option" where
  "apiPostJson_body relogin L c api marshalled unmarshal result w =
     (case marshalled of
        Inl e \<Rightarrow> Some ((Some e, result), w)
      | Inr payloadData \<Rightarrow>
          (case doHttpRequest_body relogin L c api ''POST'' (Some payloadData) ''application/json'' w of
             None \<Rightarrow> None
           | Some ((respData, Some e), w1) \<Rightarrow> Some ((Some e, result), w1)
           | Some ((respData, None), w1) \<Rightarrow>
               (let dat = (case respData of None \<Rightarrow> [] | Some b \<Rightarrow> b) in
                case unmarshal dat result of
                  (Some e, result') \<Rightarrow> Some ((Some e, result'), jsonError api dat e w1)
                | (None, result') \<Rightarrow> Some ((None, result'), w1))))"

subsection \<open>auth.go: performLogin, doAuthMsg and the messages to the coordinator\<close>

definition empty_loginResponse :: loginResponse where
  "empty_loginResponse = \<lparr>lr_Email = [], lr_FirstName = [], lr_LastName = [], lr_Roles = [],
                           lr_Token = [], lr_Provider = [], lr_loginTime = []\<rparr>"

definition performLogin ::
  "stdlib \<Rightarrow> client \<Rightarrow> string \<Rightarrow> string \<Rightarrow> world \<Rightarrow> ((string \<times> error option) \<times> world) option" where
  "performLogin L c em pw w =
     (let ld = \<lparr>Username = ''customer'', Email = em, Password = pw, ForceSmOff = False\<rparr> in
      case apiPostJson_body (\<lambda>_. None) L c ''login/Basic'' (Marshal_loginData L ld)
             (Unmarshal_loginResponse L) empty_loginResponse w of
        None \<Rightarrow> None
      | Some ((err, resp), w1) \<Rightarrow>
          if lr_Token resp \<noteq> [] then Some ((lr_Token resp, None), w1)
          else (case err of
                  Some e \<Rightarrow> Some (([], Some e), w1)
                | None \<Rightarrow> Some (([], Some (ErrorNew ''No auth token returned from login API call'')), w1)))"

definition doAuthMsg ::
  "stdlib \<Rightarrow> client \<Rightarrow> authMessage \<Rightarrow> world \<Rightarrow> (reply \<times> world) option" where
  "doAuthMsg L c msg w =
     (case action msg of
        cmd_SET_TOKEN \<Rightarrow> Some (NoReply, w\<lparr>authToken := token msg\<rparr>)
      | cmd_DO_LOGIN \<Rightarrow>
          (case performLogin L c (email msg) (password msg) w of
             None \<Rightarrow> None
           | Some ((tok, err), w1) \<Rightarrow> Some (Reply err, w1\<lparr>authToken := tok\<rparr>))
      | cmd_CHECK_LOGIN \<Rightarrow>
          if authToken w = [] then
            (case performLogin L c (email msg) (password msg) w of
               None \<Rightarrow> None
             | Some ((tok, err), w1) \<Rightarrow> Some (Reply err, w1\<lparr>authToken := tok\<rparr>))
          else Some (Reply None, w))"

text \<open>A sender that waits for a reply which is never sent blocks for ever: no result.\<close>

definition send_and_wait ::
  "stdlib \<Rightarrow> client \<Rightarrow> authMessage \<Rightarrow> world \<Rightarrow> (error option \<times> world) option" where
  "send_and_wait L c msg w =
     (case doAuthMsg L c msg (emit (AuthMsg (action msg)) (exchange w)) of
        None \<Rightarrow> None
      | Some (NoReply, w1) \<Rightarrow> None
      | Some (Reply err, w1) \<Rightarrow> Some (err, w1))"

definition DoLogin :: "stdlib \<Rightarrow> client \<Rightarrow> world \<Rightarrow> (error option \<times> world) option" where
  "DoLogin L c w =
     send_and_wait L c \<lparr>action = cmd_DO_LOGIN, email = gatewayLoginEmail c,
                        password = gatewayLoginPassword c, token = []\<rparr> w"

definition checkLogin :: "stdlib \<Rightarrow> client \<Rightarrow> world \<Rightarrow> (error option \<times> world) option" where
  "checkLogin L c w =
     send_and_wait L c \<lparr>action = cmd_CHECK_LOGIN, email = gatewayLoginEmail c,
                        password = gatewayLoginPassword c, token = []\<rparr> w"

definition doHttpRequest ::
  "stdlib \<Rightarrow> client \<Rightarrow> string \<Rightarrow> string \<Rightarrow> string option \<Rightarrow> string \<Rightarrow> world \<Rightarrow>
   ((string option \<times> error option) \<times> world) option" where
  "doHttpRequest L c = doHttpRequest_body (DoLogin L c) L c"

subsection \<open>Concrete scenarios\<close>

text \<open>A gateway that answers the n-th call of \<open>httpClient.Do\<close> from a script.\<close>

definition scripted ::
  "((error + response) \<times> nat) list \<Rightarrow> nat \<Rightarrow> request \<Rightarrow> (error + response) \<times> nat" where
  "scripted xs n req = (if n < length xs then xs ! n else (Inl (OtherError ''end of script''), 0))"

text \<open>
  A toy instance of the library parameters: the login response body is the token itself,
  the body \<open>partial\<close> decodes with an error but yields the token \<open>tok1\<close>,
  and the body \<open>bad\<close> does not decode.
\<close>

definition ex_lib :: stdlib where
  "ex_lib = \<lparr>NewRequest_check = (\<lambda>_ _. None),
             Marshal_loginData = (\<lambda>_. Inr ''{}''),
             Unmarshal_loginResponse =
               (\<lambda>b r. if b = ''bad'' then (Some (OtherError ''syntax''), r)
                      else if b = ''partial'' then (Some (OtherError ''roles''), r\<lparr>lr_Token := ''tok1''\<rparr>)
                      else (None, r\<lparr>lr_Token := b\<rparr>)),
             Unmarshal_errorResponse = (\<lambda>b r. (None, r)),
             sanitizeCookieName = (\<lambda>n. n),
             sanitizeCookieValue = (\<lambda>v. v)\<rparr>"

definition down_client :: client where
  "down_client = \<lparr>gatewayAddress = ''teg'', gatewayLoginEmail = ''a@b'',
      gatewayLoginPassword = ''pw'',
      httpClient = (\<lambda>n req. (Inl (NetError ''unreachable''), 5)),
      retryInterval = 0, retryTimeout = 0\<rparr>"

text \<open>A gateway whose login response decodes with an error and still yields a token.\<close>

definition partial_client :: client where
  "partial_client = \<lparr>gatewayAddress = ''teg'', gatewayLoginEmail = ''a@b'',
      gatewayLoginPassword = ''pw'',
      httpClient = scripted [(Inr \<lparr>StatusCode = 200, Body = Inr ''partial''\<rparr>, 3)],
      retryInterval = 0, retryTimeout = 0\<rparr>"


definition stale_world :: world where
  "stale_world = \<lparr>now = 0, authToken = ''stale'', ndo = 0, events = [], others = []\<rparr>"

definition do_login_msg :: authMessage where
  "do_login_msg = \<lparr>action = cmd_DO_LOGIN, email = ''a@b'', password = ''pw'', token = []\<rparr>"

subsection \<open>The retry loop, unrolled\<close>

text \<open>
  \<open>loop_run c req start w k y\<close>: started in the world \<open>w\<close>, the loop of httpDo makes exactly
  \<open>k\<close> retries and then leaves with \<open>y\<close>. \<open>retry_events\<close> lists what such a run appends to the events.
\<close>

fun loop_run ::
  "client \<Rightarrow> request \<Rightarrow> int \<Rightarrow> world \<Rightarrow> nat \<Rightarrow> (error + response) \<times> world \<Rightarrow> bool" where
  "loop_run c req start w 0 y =
     (y = client_Do c req w \<and>
      (\<not> is_net_Error (fst y) \<or> retryTimeout c \<le> time_Sub (now (snd y)) start))"
| "loop_run c req start w (Suc k) y =
     (is_net_Error (fst (client_Do c req w)) \<and>
      time_Sub (now (snd (client_Do c req w))) start < retryTimeout c \<and>
      loop_run c req start
        (time_Sleep (wrap64 (retryInterval c - time_Sub (now (snd (client_Do c req w))) (now w)))
           (snd (client_Do c req w))) k y)"

text \<open>
  The argument of the sleep after an attempt that took \<open>took\<close>: the interval minus the
  duration of the attempt, in 64-bit arithmetic.
\<close>

definition sleep_arg :: "client \<Rightarrow> nat \<Rightarrow> int" where
  "sleep_arg c took = wrap64 (retryInterval c - sat64 (int took))"

fun retry_events :: "client \<Rightarrow> request \<Rightarrow> string \<Rightarrow> nat \<Rightarrow> nat \<Rightarrow> (string \<times> event) list" where
  "retry_events c req tok n 0 = [(tok, Sent n req)]"
| "retry_events c req tok n (Suc k) =
     (tok, Sent n req) # (tok, Slept (sleep_arg c (snd (httpClient c n req))))
       # retry_events c req tok (Suc n) k"

text \<open>The time a run with \<open>k\<close> retries takes, up to the return of its last attempt.\<close>

fun retry_time :: "client \<Rightarrow> request \<Rightarrow> nat \<Rightarrow> nat \<Rightarrow> int" where
  "retry_time c req n 0 = int (snd (httpClient c n req))"
| "retry_time c req n (Suc k) =
     int (snd (httpClient c n req))
     + max 0 (sleep_arg c (snd (httpClient c n req)))
     + retry_time c req (Suc n) k"

text \<open>
  A gateway that cannot be reached: every attempt fails after the two seconds of the
  client's own timeout (set in NewClient). Retry every half second, for one second.
  The scenarios count time in milliseconds.
\<close>

definition slow_client :: client where
  "slow_client = \<lparr>gatewayAddress = ''teg'', gatewayLoginEmail = ''a@b'',
      gatewayLoginPassword = ''pw'',
      httpClient = (\<lambda>n req. (Inl (NetError ''timeout''), 2000)),
      retryInterval = 500, retryTimeout = 1000\<rparr>"

text \<open>The same gateway answering at once with a refusal: three attempts fit in the second.\<close>

definition refusing_client :: client where
  "refusing_client = \<lparr>gatewayAddress = ''teg'', gatewayLoginEmail = ''a@b'',
      gatewayLoginPassword = ''pw'',
      httpClient = (\<lambda>n req. (Inl (NetError ''refused''), 100)),
      retryInterval = 500, retryTimeout = 1000\<rparr>"

definition status_request :: request where
  "status_request = \<lparr>Method = ''GET'',
      URL = \<lparr>Scheme = ''https'', Host = ''teg'', Path = ''api/status''\<rparr>,
      ReqBody = None, ContentType = None, Cookies = []\<rparr>"

definition fresh_world :: world where
  "fresh_world = \<lparr>now = 0, authToken = [], ndo = 0, events = [], others = []\<rparr>"

subsection \<open>Reading the events\<close>

text \<open>
  \<open>new_events w w'\<close> are the events appended between the worlds \<open>w\<close> and \<open>w'\<close>.
  \<open>cookie_rule L tok req\<close> is the rule of claim C4 for the cookies of a request sent while
  the coordinator holds the token \<open>tok\<close>: none on a login call, and on any other call the
  cookie AuthCookie with the token if the token is not empty, none if it is.
\<close>

definition new_events :: "world \<Rightarrow> world \<Rightarrow> (string \<times> event) list" where
  "new_events w w' = drop (length (events w)) (events w')"

fun request_of :: "event \<Rightarrow> request option" where
  "request_of (HttpDo req) = Some req"
| "request_of (Sent n req) = Some req"
| "request_of _ = None"


definition cookie_rule :: "stdlib \<Rightarrow> string \<Rightarrow> request \<Rightarrow> bool" where
  "cookie_rule L tok req =
     (if prefix ''api/login/'' (Path (URL req)) then Cookies req = []
      else if tok \<noteq> [] then Cookies req = [(sanitizeCookieName L ''AuthCookie'', sanitizeCookieValue L tok)]
      else Cookies req = [])"

fun cookies_ok :: "stdlib \<Rightarrow> string \<times> event \<Rightarrow> bool" where
  "cookies_ok L (tok, e) = (case request_of e of None \<Rightarrow> True | Some req \<Rightarrow> cookie_rule L tok req)"




text \<open>
  A gateway with sessions: login/Basic answers with the token \<open>fresh\<close>; any other call is
  answered with 200 when it carries the cookie AuthCookie=fresh and with 401 otherwise.
\<close>

definition session_gateway :: "nat \<Rightarrow> request \<Rightarrow> (error + response) \<times> nat" where
  "session_gateway n req =
     (if Path (URL req) = ''api/login/Basic'' then (Inr \<lparr>StatusCode = 200, Body = Inr ''fresh''\<rparr>, 1)
      else if Cookies req = [(''AuthCookie'', ''fresh'')]
        then (Inr \<lparr>StatusCode = 200, Body = Inr ''{}''\<rparr>, 1)
      else (Inr \<lparr>StatusCode = 401, Body = Inr ''denied''\<rparr>, 1))"



definition gateway_client :: "(nat \<Rightarrow> request \<Rightarrow> (error + response) \<times> nat) \<Rightarrow> client" where
  "gateway_client g = \<lparr>gatewayAddress = ''teg'', gatewayLoginEmail = ''a@b'',
      gatewayLoginPassword = ''pw'', httpClient = g, retryInterval = 0, retryTimeout = 0\<rparr>"

text \<open>
  Two callers: while this one holds the stale token, another goroutine calls
  \<open>SetAuthToken("")\<close>, and the coordinator serves that message after this caller's
  re-login and before its read of the token (third exchange).
\<close>

definition raced_world :: world where
  "raced_world = \<lparr>now = 0, authToken = ''stale'', ndo = 0, events = [],
                   others = [None, None, Some []]\<rparr>"





definition site_info_request :: request where
  "site_info_request = \<lparr>Method = ''GET'',
      URL = \<lparr>Scheme = ''https'', Host = ''teg'', Path = ''api/site_info''\<rparr>,
      ReqBody = None, ContentType = None, Cookies = []\<rparr>"

definition login_request :: request where
  "login_request = \<lparr>Method = ''POST'',
      URL = \<lparr>Scheme = ''https'', Host = ''teg'', Path = ''api/login/Basic''\<rparr>,
      ReqBody = Some ''{}'', ContentType = Some ''application/json'', Cookies = []\<rparr>"

section \<open>The codec layer: NonIsoTime\<close>

text \<open>
  types.go: \<open>NonIsoTime.UnmarshalJSON\<close> removes every double quote from its input
  (\<open>strings.Replace(string(p), `"`, ``, -1)\<close>) and hands the rest to \<open>time.Parse\<close> with the
  layout \<open>nonIsoTimeFormat\<close>. \<open>time.Parse\<close> belongs to Go's library and is a parameter; the
  result is the error returned and the value of the receiver afterwards.
\<close>

definition dquote :: char where
  "dquote = CHR 0x22"





definition is_digit :: "char \<Rightarrow> bool" where
  "is_digit c = (48 \<le> (of_char c :: nat) \<and> (of_char c :: nat) \<le> 57)"











section \<open>The codec layer: DecodedAlert\<close>














subsection \<open>A decoder for the examples\<close>

text \<open>
  An instance of the library's decoder, after the documentation of \<open>encoding/json\<close>: the
  JSON grammar of RFC 8259 over bytes, and the rules of \<open>json.Unmarshal\<close> for a destination
  of type \<open>string\<close> and of type \<open>[]entry\<close>. A JSON number is kept as its text, which stands
  for the \<open>float64\<close> it denotes. The recursion is bounded by the length of the input.
\<close>

datatype json =
    JNull
  | JBool bool
  | JNumber string
  | JString string
  | JArray "json list"
  | JObject "(string \<times> json) list"

definition backslash :: char where
  "backslash = CHR 0x5C"

definition is_ws :: "char \<Rightarrow> bool" where
  "is_ws c = (c = CHR 0x20 \<or> c = CHR 0x09 \<or> c = CHR 0x0A \<or> c = CHR 0x0D)"

definition skip_ws :: "string \<Rightarrow> string" where
  "skip_ws s = dropWhile is_ws s"

definition hex_val :: "char \<Rightarrow> nat option" where
  "hex_val c =
     (let n = (of_char c :: nat)
      in if 48 \<le> n \<and> n \<le> 57 then Some (n - 48)
         else if 65 \<le> n \<and> n \<le> 70 then Some (n - 55)
         else if 97 \<le> n \<and> n \<le> 102 then Some (n - 87)
         else None)"

definition hex4 :: "string \<Rightarrow> (nat \<times> string) option" where
  "hex4 s =
     (case s of
        a # b # c # d # rest \<Rightarrow>
          (case (hex_val a, hex_val b, hex_val c, hex_val d) of
             (Some x, Some y, Some z, Some w) \<Rightarrow> Some (((x * 16 + y) * 16 + z) * 16 + w, rest)
           | _ \<Rightarrow> None)
      | _ \<Rightarrow> None)"

definition utf8 :: "nat \<Rightarrow> string" where
  "utf8 n =
     (if n < 128 then [char_of n]
      else if n < 2048 then [char_of (192 + n div 64), char_of (128 + n mod 64)]
      else if n < 65536 then
        [char_of (224 + n div 4096), char_of (128 + n div 64 mod 64), char_of (128 + n mod 64)]
      else
        [char_of (240 + n div 262144), char_of (128 + n div 4096 mod 64),
         char_of (128 + n div 64 mod 64), char_of (128 + n mod 64)])"

text \<open>
  The escape \<open>\u\<close>: four hexadecimal digits; a high surrogate followed by an escaped low
  surrogate is one code point, any other surrogate is replaced by U+FFFD.
\<close>

definition unicode_escape :: "string \<Rightarrow> (string \<times> string) option" where
  "unicode_escape s =
     (case hex4 s of
        None \<Rightarrow> None
      | Some (n, rest) \<Rightarrow>
          if 55296 \<le> n \<and> n < 56320 then
            (case rest of
               b # u # rest1 \<Rightarrow>
                 (if b = backslash \<and> u = CHR ''u'' then
                    (case hex4 rest1 of
                       Some (lo, rest2) \<Rightarrow>
                         if 56320 \<le> lo \<and> lo < 57344
                         then Some (utf8 (65536 + (n - 55296) * 1024 + (lo - 56320)), rest2)
                         else Some (utf8 65533, rest)
                     | None \<Rightarrow> Some (utf8 65533, rest))
                  else Some (utf8 65533, rest))
             | _ \<Rightarrow> Some (utf8 65533, rest))
          else if 56320 \<le> n \<and> n < 57344 then Some (utf8 65533, rest)
          else Some (utf8 n, rest))"

definition simple_escape :: "char \<Rightarrow> char option" where
  "simple_escape e =
     (if e = dquote \<or> e = backslash \<or> e = CHR ''/'' then Some e
      else if e = CHR ''b'' then Some (CHR 0x08)
      else if e = CHR ''f'' then Some (CHR 0x0C)
      else if e = CHR ''n'' then Some (CHR 0x0A)
      else if e = CHR ''r'' then Some (CHR 0x0D)
      else if e = CHR ''t'' then Some (CHR 0x09)
      else None)"

fun string_body :: "nat \<Rightarrow> string \<Rightarrow> string \<Rightarrow> (string \<times> string) option" where
  "string_body 0 acc s = None"
| "string_body (Suc n) acc [] = None"
| "string_body (Suc n) acc (c # cs) =
     (if c = dquote then Some (rev acc, cs)
      else if c = backslash then
        (case cs of
           [] \<Rightarrow> None
         | e # rest \<Rightarrow>
             if e = CHR ''u'' then
               (case unicode_escape rest of
                  None \<Rightarrow> None
                | Some (bytes, rest1) \<Rightarrow> string_body n (rev bytes @ acc) rest1)
             else
               (case simple_escape e of
                  None \<Rightarrow> None
                | Some ch \<Rightarrow> string_body n (ch # acc) rest))
      else if (of_char c :: nat) < 32 then None
      else string_body n (c # acc) cs)"

definition scan_digits :: "string \<Rightarrow> (string \<times> string) option" where
  "scan_digits s = (if takeWhile is_digit s = [] then None
                    else Some (takeWhile is_digit s, dropWhile is_digit s))"

definition scan_int :: "string \<Rightarrow> (string \<times> string) option" where
  "scan_int s =
     (case s of
        [] \<Rightarrow> None
      | c # cs \<Rightarrow> if c = CHR ''0'' then Some ([c], cs) else scan_digits s)"

definition scan_frac :: "string \<Rightarrow> (string \<times> string) option" where
  "scan_frac s =
     (case s of
        c # cs \<Rightarrow>
          if c = CHR ''.'' then map_option (\<lambda>(ds, r). (c # ds, r)) (scan_digits cs)
          else Some ([], s)
      | [] \<Rightarrow> Some ([], s))"

definition scan_exp :: "string \<Rightarrow> (string \<times> string) option" where
  "scan_exp s =
     (case s of
        c # cs \<Rightarrow>
          if c = CHR ''e'' \<or> c = CHR ''E'' then
            (case cs of
               d # ds \<Rightarrow>
                 if d = CHR ''+'' \<or> d = CHR ''-''
                 then map_option (\<lambda>(xs, r). (c # d # xs, r)) (scan_digits ds)
                 else map_option (\<lambda>(xs, r). (c # xs, r)) (scan_digits cs)
             | [] \<Rightarrow> None)
          else Some ([], s)
      | [] \<Rightarrow> Some ([], s))"

definition scan_number :: "string \<Rightarrow> (string \<times> string) option" where
  "scan_number s =
     (let sign = (if s \<noteq> [] \<and> hd s = CHR ''-'' then ''-'' else []);
          s1 = drop (length sign) s
      in case scan_int s1 of
           None \<Rightarrow> None
         | Some (ip, s2) \<Rightarrow>
             (case scan_frac s2 of
                None \<Rightarrow> None
              | Some (fp, s3) \<Rightarrow>
                  (case scan_exp s3 of
                     None \<Rightarrow> None
                   | Some (ep, s4) \<Rightarrow> Some (sign @ ip @ fp @ ep, s4))))"

definition scan_word :: "string \<Rightarrow> json \<Rightarrow> string \<Rightarrow> (json \<times> string) option" where
  "scan_word word j s = (if take (length word) s = word then Some (j, drop (length word) s) else None)"

fun parse_value :: "nat \<Rightarrow> string \<Rightarrow> (json \<times> string) option"
and parse_elements :: "nat \<Rightarrow> json list \<Rightarrow> string \<Rightarrow> (json \<times> string) option"
and parse_members :: "nat \<Rightarrow> (string \<times> json) list \<Rightarrow> string \<Rightarrow> (json \<times> string) option" where
  "parse_value 0 s = None"
| "parse_value (Suc n) s =
     (case skip_ws s of
        [] \<Rightarrow> None
      | c # cs \<Rightarrow>
          if c = CHR ''{'' then
            (case skip_ws cs of
               [] \<Rightarrow> None
             | d # r \<Rightarrow> if d = CHR ''}'' then Some (JObject [], r) else parse_members n [] cs)
          else if c = CHR ''['' then
            (case skip_ws cs of
               [] \<Rightarrow> None
             | d # r \<Rightarrow> if d = CHR '']'' then Some (JArray [], r) else parse_elements n [] cs)
          else if c = dquote then
            map_option (\<lambda>(str, r). (JString str, r)) (string_body (Suc (length cs)) [] cs)
          else if c = CHR ''n'' then scan_word ''null'' JNull (c # cs)
          else if c = CHR ''t'' then scan_word ''true'' (JBool True) (c # cs)
          else if c = CHR ''f'' then scan_word ''false'' (JBool False) (c # cs)
          else map_option (\<lambda>(lit, r). (JNumber lit, r)) (scan_number (c # cs)))"
| "parse_elements 0 acc s = None"
| "parse_elements (Suc n) acc s =
     (case parse_value n s of
        None \<Rightarrow> None
      | Some (v, r) \<Rightarrow>
          (case skip_ws r of
             [] \<Rightarrow> None
           | c # r1 \<Rightarrow>
               if c = CHR '','' then parse_elements n (v # acc) r1
               else if c = CHR '']'' then Some (JArray (rev (v # acc)), r1)
               else None))"
| "parse_members 0 acc s = None"
| "parse_members (Suc n) acc s =
     (case skip_ws s of
        [] \<Rightarrow> None
      | q # cs \<Rightarrow>
          if q \<noteq> dquote then None
          else
            (case string_body (Suc (length cs)) [] cs of
               None \<Rightarrow> None
             | Some (k, r) \<Rightarrow>
                 (case skip_ws r of
                    [] \<Rightarrow> None
                  | colon # r1 \<Rightarrow>
                      if colon \<noteq> CHR '':'' then None
                      else
                        (case parse_value n r1 of
                           None \<Rightarrow> None
                         | Some (v, r2) \<Rightarrow>
                             (case skip_ws r2 of
                                [] \<Rightarrow> None
                              | c # r3 \<Rightarrow>
                                  if c = CHR '','' then parse_members n ((k, v) # acc) r3
                                  else if c = CHR ''}'' then Some (JObject (rev ((k, v) # acc)), r3)
                                  else None)))))"




















section \<open>Properties\<close>

subsection \<open>performLogin\<close>

lemma performLogin_error_empty:
  "performLogin L c em pw w = Some ((tok, Some e), w1) \<Longrightarrow> tok = []"
  by (auto simp: performLogin_def Let_def split: option.splits prod.splits if_splits)


subsection \<open>Failed logins in the coordinator\<close>

text \<open>
  Claim C2, as stated, says that a failed login leaves the stored token as it was. It does not:
  doAuthMsg assigns both results of performLogin, and performLogin returns the empty token
  with its error. Here the coordinator holds the token \<open>stale\<close>, the gateway is unreachable,
  and cmd_DO_LOGIN replies the error and leaves the empty token.
\<close>

theorem C2_token_cleared_counterexample:
  "doAuthMsg ex_lib down_client do_login_msg stale_world \<noteq> None
   \<and> fst (the (doAuthMsg ex_lib down_client do_login_msg stale_world))
       = Reply (Some (NetError ''unreachable''))
   \<and> authToken (snd (the (doAuthMsg ex_lib down_client do_login_msg stale_world))) = []
   \<and> authToken stale_world = ''stale''"
  by code_simp

text \<open>
  Claim C2, amended: for every login operation of the coordinator (cmd_DO_LOGIN, or
  cmd_CHECK_LOGIN with an empty token) that fails, the login error is the reply sent to the
  caller, and the stored token is the empty string afterwards (so it is unchanged exactly
  when it was empty before, as it always is for cmd_CHECK_LOGIN).
\<close>

theorem C2_failed_login_replies_error_and_empties_token:
  assumes "action msg = cmd_DO_LOGIN \<or> (action msg = cmd_CHECK_LOGIN \<and> authToken w = [])"
    and "performLogin L c (email msg) (password msg) w = Some ((tok, Some e), w1)"
  shows "doAuthMsg L c msg w = Some (Reply (Some e), w1\<lparr>authToken := []\<rparr>)"
proof -
  have "tok = []"
    using assms(2) by (rule performLogin_error_empty)
  with assms show ?thesis
    by (auto simp: doAuthMsg_def)
qed

theorem C2_failed_login_witness:
  "action do_login_msg = cmd_DO_LOGIN
   \<and> performLogin ex_lib down_client (email do_login_msg) (password do_login_msg) stale_world
       = Some (([], Some (NetError ''unreachable'')),
               snd (the (performLogin ex_lib down_client ''a@b'' ''pw'' stale_world)))
   \<and> doAuthMsg ex_lib down_client do_login_msg stale_world
       = Some (Reply (Some (NetError ''unreachable'')),
               (snd (the (performLogin ex_lib down_client ''a@b'' ''pw'' stale_world)))\<lparr>authToken := []\<rparr>)"
proof -
  have a: "action do_login_msg = cmd_DO_LOGIN"
    by (simp add: do_login_msg_def)
  have h: "performLogin ex_lib down_client (email do_login_msg) (password do_login_msg) stale_world
       = Some (([], Some (NetError ''unreachable'')),
               snd (the (performLogin ex_lib down_client ''a@b'' ''pw'' stale_world)))"
    by code_simp
  from C2_failed_login_replies_error_and_empties_token [OF disjI1 [OF a] h] a h
  show ?thesis by simp
qed

subsection \<open>Login calls do not depend on the re-login parameter\<close>







subsection \<open>The retry loop of httpDo\<close>

lemma wrap64_id: "int64 x \<Longrightarrow> wrap64 x = x"
  by (simp add: int64_def wrap64_def)

lemma int64_wrap64: "int64 (wrap64 x)"
proof -
  have "0 \<le> (x + 2 ^ 63) mod (2 ^ 64 :: int)" "(x + 2 ^ 63) mod (2 ^ 64 :: int) < 2 ^ 64"
    by simp_all
  then show ?thesis
    by (simp add: int64_def wrap64_def)
qed

lemma sat64_nonneg: "0 \<le> x \<Longrightarrow> sat64 x = min (2 ^ 63 - 1) x"
  by (simp add: sat64_def min_def)

lemma int64_sat64: "int64 (sat64 x)"
  by (simp add: int64_def sat64_def)

lemma sleep_arg_exact:
  assumes "0 \<le> retryInterval c" "int64 (retryInterval c)"
  shows "sleep_arg c took = retryInterval c - sat64 (int took)"
proof -
  have "0 \<le> sat64 (int took)" "sat64 (int took) \<le> 2 ^ 63 - 1"
    by (simp_all add: sat64_def)
  with assms have "int64 (retryInterval c - sat64 (int took))"
    by (simp add: int64_def)
  then show ?thesis
    by (simp add: sleep_arg_def wrap64_id)
qed

lemma advance_positive:
  assumes "0 < retryInterval c" "int64 (retryInterval c)"
  shows "0 < int took + max 0 (sleep_arg c took)"
proof -
  from assms have "sleep_arg c took = retryInterval c - sat64 (int took)"
    by (simp add: sleep_arg_exact)
  with assms(1) show ?thesis
    by (auto simp: sat64_def max_def split: if_splits)
qed

lemma httpDo_loop_run:
  assumes "httpDo_loop c req start w = Some y"
  shows "\<exists>k. loop_run c req start w k y"
proof (rule httpDo_loop.raw_induct
    [where P = "\<lambda>c req start w y. \<exists>k. loop_run c req start w k y", OF _ assms])
  fix loop :: "client \<Rightarrow> request \<Rightarrow> int \<Rightarrow> world \<Rightarrow> ((error + response) \<times> world) option"
    and c req start w y
  assume IH: "\<And>c req start w y. loop c req start w = Some y \<Longrightarrow> \<exists>k. loop_run c req start w k y"
  assume body: "(let attempt_time = now w; rw = client_Do c req w
      in if \<not> is_net_Error (fst rw) then Some rw
         else if retryTimeout c \<le> time_Sub (now (snd rw)) start then Some rw
              else loop c req start
                    (time_Sleep (wrap64 (retryInterval c - time_Sub (now (snd rw)) attempt_time))
                       (snd rw))) = Some y"
  show "\<exists>k. loop_run c req start w k y"
  proof (cases "\<not> is_net_Error (fst (client_Do c req w))
                \<or> retryTimeout c \<le> time_Sub (now (snd (client_Do c req w))) start")
    case True
    with body have "y = client_Do c req w"
      by (auto simp: Let_def split: if_splits)
    with True have "loop_run c req start w 0 y" by simp
    then show ?thesis ..
  next
    case False
    with body have "loop c req start
        (time_Sleep (wrap64 (retryInterval c - time_Sub (now (snd (client_Do c req w))) (now w)))
           (snd (client_Do c req w))) = Some y"
      by (auto simp: Let_def split: if_splits)
    from IH [OF this] obtain k where "loop_run c req start
        (time_Sleep (wrap64 (retryInterval c - time_Sub (now (snd (client_Do c req w))) (now w)))
           (snd (client_Do c req w))) k y" ..
    with False have "loop_run c req start w (Suc k) y" by simp
    then show ?thesis ..
  qed
qed

lemma loop_run_httpDo_loop:
  "loop_run c req start w k y \<Longrightarrow> httpDo_loop c req start w = Some y"
proof (induction k arbitrary: w)
  case 0
  then show ?case by (subst httpDo_loop.simps) (auto simp: Let_def)
next
  case (Suc k)
  then show ?case by (subst httpDo_loop.simps) (auto simp: Let_def)
qed

lemma client_Do_fields:
  "fst (client_Do c req w) = fst (httpClient c (ndo w) req)"
  "now (snd (client_Do c req w)) = now w + int (snd (httpClient c (ndo w) req))"
  "ndo (snd (client_Do c req w)) = Suc (ndo w)"
  "authToken (snd (client_Do c req w)) = authToken w"
  "events (snd (client_Do c req w)) = events w @ [(authToken w, Sent (ndo w) req)]"
  by (simp_all add: client_Do_def emit_def split: prod.splits)

lemma time_Sleep_fields:
  "now (time_Sleep d w) = now w + max 0 d"
  "ndo (time_Sleep d w) = ndo w"
  "authToken (time_Sleep d w) = authToken w"
  "events (time_Sleep d w) = events w @ [(authToken w, Slept d)]"
  by (simp_all add: time_Sleep_def emit_def)

lemma httpDo_emit_fields:
  "now (emit e w) = now w" "ndo (emit e w) = ndo w" "authToken (emit e w) = authToken w"
  "events (emit e w) = events w @ [(authToken w, e)]"
  by (simp_all add: emit_def)


lemma time_Sub_attempt: "time_Sub (now w + int took) (now w) = sat64 (int took)"
  by (simp add: time_Sub_def)

lemma loop_run_facts:
  "loop_run c req start w k y \<Longrightarrow>
     authToken (snd y) = authToken w \<and> ndo (snd y) = ndo w + Suc k
     \<and> fst y = fst (httpClient c (ndo w + k) req)
     \<and> events (snd y) = events w @ retry_events c req (authToken w) (ndo w) k
     \<and> now (snd y) = now w + retry_time c req (ndo w) k
     \<and> now w \<le> now (snd y)"
proof (induction k arbitrary: w)
  case 0
  then show ?case by (auto simp: client_Do_fields)
next
  case (Suc k)
  let ?w1 = "time_Sleep (wrap64 (retryInterval c - time_Sub (now (snd (client_Do c req w))) (now w)))
               (snd (client_Do c req w))"
  from Suc.prems have "loop_run c req start ?w1 k y" by simp
  from Suc.IH [OF this] show ?case
    by (simp add: client_Do_fields time_Sleep_fields time_Sub_attempt sleep_arg_def)
qed

lemma loop_run_stop:
  "loop_run c req start w k y \<Longrightarrow> is_net_Error (fst y) \<Longrightarrow>
     retryTimeout c \<le> time_Sub (now (snd y)) start"
  by (induction k arbitrary: w) auto

lemma loop_run_guard:
  "loop_run c req start w k y \<Longrightarrow> i < k \<Longrightarrow>
     is_net_Error (fst (httpClient c (ndo w + i) req))
     \<and> time_Sub (now w + retry_time c req (ndo w) i) start < retryTimeout c"
proof (induction k arbitrary: w i)
  case 0
  then show ?case by simp
next
  case (Suc k)
  let ?w1 = "time_Sleep (wrap64 (retryInterval c - time_Sub (now (snd (client_Do c req w))) (now w)))
               (snd (client_Do c req w))"
  from Suc.prems(1) have run: "loop_run c req start ?w1 k y"
    and net: "is_net_Error (fst (httpClient c (ndo w) req))"
    and early: "time_Sub (now w + int (snd (httpClient c (ndo w) req))) start < retryTimeout c"
    by (simp_all add: client_Do_fields)
  have n1: "ndo ?w1 = Suc (ndo w)"
    and t1: "now ?w1 = now w + int (snd (httpClient c (ndo w) req))
               + max 0 (sleep_arg c (snd (httpClient c (ndo w) req)))"
    by (simp_all add: client_Do_fields time_Sleep_fields time_Sub_attempt sleep_arg_def)
  show ?case
  proof (cases i)
    case 0
    with net early show ?thesis by simp
  next
    case (Suc j)
    with Suc.prems(2) have "j < k" by simp
    from Suc.IH [OF run this] Suc n1 t1 show ?thesis
      by (simp add: add.assoc)
  qed
qed

lemma httpDo_loop_terminates:
  assumes "0 < retryInterval c" "int64 (retryInterval c)" "retryTimeout c < 2 ^ 63"
  shows "start \<le> now w \<Longrightarrow> \<exists>y. httpDo_loop c req start w = Some y"
proof (induction "nat (start + retryTimeout c - now w)" arbitrary: w rule: less_induct)
  case less
  let ?rw = "client_Do c req w"
  let ?took = "snd (httpClient c (ndo w) req)"
  show ?case
  proof (cases "\<not> is_net_Error (fst ?rw) \<or> retryTimeout c \<le> time_Sub (now (snd ?rw)) start")
    case True
    then show ?thesis by (subst httpDo_loop.simps) (auto simp: Let_def)
  next
    case False
    let ?w1 = "time_Sleep (wrap64 (retryInterval c - time_Sub (now (snd ?rw)) (now w))) (snd ?rw)"
    have t1: "now ?w1 = now w + (int ?took + max 0 (sleep_arg c ?took))"
      by (simp add: client_Do_fields time_Sleep_fields time_Sub_attempt sleep_arg_def)
    from advance_positive [OF assms(1,2)] have adv: "0 < int ?took + max 0 (sleep_arg c ?took)" .
    from False have "time_Sub (now w + int ?took) start < retryTimeout c"
      by (simp add: client_Do_fields)
    with less.prems assms(3) have "now w + int ?took - start < retryTimeout c"
      by (auto simp: time_Sub_def sat64_def split: if_splits)
    with adv t1 have "nat (start + retryTimeout c - now ?w1) < nat (start + retryTimeout c - now w)"
      by linarith
    moreover from adv t1 less.prems have "start \<le> now ?w1" by linarith
    ultimately obtain y where "httpDo_loop c req start ?w1 = Some y"
      using less.hyps by blast
    with False show ?thesis by (subst httpDo_loop.simps) (auto simp: Let_def)
  qed
qed

lemma httpDo_single:
  assumes "\<not> is_net_Error (fst (httpClient c (ndo w) req))
           \<or> retryTimeout c \<le> sat64 (int (snd (httpClient c (ndo w) req)))"
  shows "httpDo c req w = Some (client_Do c req (emit (HttpDo req) w))"
  unfolding httpDo_def
  by (rule loop_run_httpDo_loop [where k = 0])
     (use assms in \<open>simp add: client_Do_fields httpDo_emit_fields time_Sub_attempt\<close>)

subsection \<open>The retry policy of httpDo\<close>

text \<open>
  Claim C3, as stated, promises at least one retry whenever the timeout is greater than the
  interval and both are positive. The loop compares the time since the first attempt began
  with the timeout before it retries, so a failed attempt that lasts as long as the timeout
  is the last one. Here the interval is half a second, the timeout one second, and the
  attempt fails with a network error after two seconds: httpClient.Do is called once.
\<close>

theorem C3_no_retry_counterexample:
  "0 < retryInterval slow_client \<and> retryInterval slow_client < retryTimeout slow_client
   \<and> httpDo slow_client status_request fresh_world \<noteq> None
   \<and> fst (the (httpDo slow_client status_request fresh_world)) = Inl (NetError ''timeout'')
   \<and> ndo (snd (the (httpDo slow_client status_request fresh_world))) = 1"
  by code_simp

text \<open>
  Claim C3, amended. For a call of httpDo on a request:
  \<^item> with a positive interval the call returns (interval and timeout being 64-bit durations);
  \<^item> when it returns after \<open>k\<close> retries, the result is the outcome of the last attempt; the
    attempts and sleeps are those of \<open>retry_events\<close>: before each retry a sleep whose argument
    is \<open>sleep_arg\<close>, which \<open>time.Sleep\<close> floors at zero (\<open>retry_time\<close>);
    every retried attempt failed with a network error and returned before the timeout had
    elapsed since the first attempt began; a network error is returned only once that time
    has reached the timeout;
  \<^item> if the timeout is greater than the interval, both are positive, and the first attempt
    fails with a network error before the timeout has elapsed, at least one retry is made;
  \<^item> for an interval that is not negative, \<open>sleep_arg\<close> is the interval minus the time the
    failed attempt took (for a negative interval the 64-bit subtraction may wrap around);
  \<^item> an attempt that does not fail with a network error (any HTTP status among them) is
    never retried, and a timeout of zero or less disables retries.
\<close>

theorem C3_retry_policy:
  "(0 < retryInterval c \<and> int64 (retryInterval c) \<and> retryTimeout c < 2 ^ 63
      \<longrightarrow> (\<exists>y. httpDo c req w = Some y))
   \<and> (httpDo c req w = Some (r, w') \<longrightarrow>
        (\<exists>k. ndo w' = ndo w + Suc k
           \<and> r = fst (httpClient c (ndo w + k) req)
           \<and> events w' = events w @ (authToken w, HttpDo req) # retry_events c req (authToken w) (ndo w) k
           \<and> now w' = now w + retry_time c req (ndo w) k
           \<and> (\<forall>i<k. is_net_Error (fst (httpClient c (ndo w + i) req))
                    \<and> sat64 (retry_time c req (ndo w) i) < retryTimeout c)
           \<and> (is_net_Error r \<longrightarrow> retryTimeout c \<le> sat64 (retry_time c req (ndo w) k))
           \<and> (0 < retryInterval c \<and> retryInterval c < retryTimeout c
                \<and> is_net_Error (fst (httpClient c (ndo w) req))
                \<and> sat64 (int (snd (httpClient c (ndo w) req))) < retryTimeout c \<longrightarrow> 1 \<le> k)))
   \<and> (0 \<le> retryInterval c \<and> int64 (retryInterval c) \<longrightarrow>
        sleep_arg c took = retryInterval c - sat64 (int took))
   \<and> (\<not> is_net_Error (fst (httpClient c (ndo w) req)) \<longrightarrow>
        httpDo c req w = Some (client_Do c req (emit (HttpDo req) w)))
   \<and> (retryTimeout c \<le> 0 \<longrightarrow>
        httpDo c req w = Some (client_Do c req (emit (HttpDo req) w)))"
proof (intro conjI impI)
  assume "0 < retryInterval c \<and> int64 (retryInterval c) \<and> retryTimeout c < 2 ^ 63"
  then show "\<exists>y. httpDo c req w = Some y"
    unfolding httpDo_def by (intro httpDo_loop_terminates) (simp_all add: httpDo_emit_fields)
next
  assume h: "httpDo c req w = Some (r, w')"
  let ?w0 = "emit (HttpDo req) w"
  from h obtain k where run: "loop_run c req (now w) ?w0 k (r, w')"
    unfolding httpDo_def using httpDo_loop_run by blast
  from loop_run_facts [OF run]
  have f: "ndo w' = ndo w + Suc k" "r = fst (httpClient c (ndo w + k) req)"
    "events w' = events w @ (authToken w, HttpDo req) # retry_events c req (authToken w) (ndo w) k"
    "now w' = now w + retry_time c req (ndo w) k"
    by (simp_all add: httpDo_emit_fields)
  have g: "\<forall>i<k. is_net_Error (fst (httpClient c (ndo w + i) req))
                    \<and> sat64 (retry_time c req (ndo w) i) < retryTimeout c"
    using loop_run_guard [OF run] by (simp add: httpDo_emit_fields time_Sub_def)
  have s: "is_net_Error r \<longrightarrow> retryTimeout c \<le> sat64 (retry_time c req (ndo w) k)"
    using loop_run_stop [OF run] f(4) by (simp add: time_Sub_def)
  have "1 \<le> k" if "is_net_Error (fst (httpClient c (ndo w) req))"
      "sat64 (int (snd (httpClient c (ndo w) req))) < retryTimeout c"
  proof (rule ccontr)
    assume "\<not> 1 \<le> k"
    then have "k = 0" by simp
    with f(2) s that show False by simp
  qed
  with f g s show "\<exists>k. ndo w' = ndo w + Suc k
           \<and> r = fst (httpClient c (ndo w + k) req)
           \<and> events w' = events w @ (authToken w, HttpDo req) # retry_events c req (authToken w) (ndo w) k
           \<and> now w' = now w + retry_time c req (ndo w) k
           \<and> (\<forall>i<k. is_net_Error (fst (httpClient c (ndo w + i) req))
                    \<and> sat64 (retry_time c req (ndo w) i) < retryTimeout c)
           \<and> (is_net_Error r \<longrightarrow> retryTimeout c \<le> sat64 (retry_time c req (ndo w) k))
           \<and> (0 < retryInterval c \<and> retryInterval c < retryTimeout c
                \<and> is_net_Error (fst (httpClient c (ndo w) req))
                \<and> sat64 (int (snd (httpClient c (ndo w) req))) < retryTimeout c \<longrightarrow> 1 \<le> k)"
    by blast
next
  assume "0 \<le> retryInterval c \<and> int64 (retryInterval c)"
  then show "sleep_arg c took = retryInterval c - sat64 (int took)"
    by (simp add: sleep_arg_exact)
next
  assume "\<not> is_net_Error (fst (httpClient c (ndo w) req))"
  then show "httpDo c req w = Some (client_Do c req (emit (HttpDo req) w))"
    by (simp add: httpDo_single)
next
  assume "retryTimeout c \<le> 0"
  then have "retryTimeout c \<le> sat64 (int (snd (httpClient c (ndo w) req)))"
    by (simp add: sat64_def)
  then show "httpDo c req w = Some (client_Do c req (emit (HttpDo req) w))"
    by (simp add: httpDo_single)
qed

text \<open>
  The subtraction wraps where Go's does: with the least interval and an attempt of 100 ns
  the sleep lasts almost the largest duration.
\<close>

lemma sleep_arg_wraps:
  "sleep_arg (SetRetry refusing_client (- (2 ^ 63)) 1000) 100 = 9223372036854775708"
  by (simp add: sleep_arg_def SetRetry_def wrap64_def sat64_def)

theorem C3_retry_policy_witness:
  "0 < retryInterval refusing_client \<and> retryInterval refusing_client < retryTimeout refusing_client
   \<and> int64 (retryInterval refusing_client) \<and> retryTimeout refusing_client < 2 ^ 63
   \<and> is_net_Error (fst (httpClient refusing_client (ndo fresh_world) status_request))
   \<and> sat64 (int (snd (httpClient refusing_client (ndo fresh_world) status_request)))
       < retryTimeout refusing_client
   \<and> (\<exists>y. httpDo refusing_client status_request fresh_world = Some y)
   \<and> sleep_arg refusing_client 100 = 400
   \<and> httpDo refusing_client status_request fresh_world
       = Some (Inl (NetError ''refused''),
               snd (the (httpDo refusing_client status_request fresh_world)))
   \<and> (\<exists>k. 1 \<le> k
         \<and> ndo (snd (the (httpDo refusing_client status_request fresh_world))) = Suc k
         \<and> retryTimeout refusing_client \<le> sat64 (retry_time refusing_client status_request 0 k))
   \<and> ndo (snd (the (httpDo refusing_client status_request fresh_world))) = 3
   \<and> now (snd (the (httpDo refusing_client status_request fresh_world))) = 1100
   \<and> \<not> is_net_Error (fst (httpClient partial_client (ndo fresh_world) status_request))
   \<and> httpDo partial_client status_request fresh_world
       = Some (client_Do partial_client status_request (emit (HttpDo status_request) fresh_world))
   \<and> retryTimeout down_client \<le> 0
   \<and> httpDo down_client status_request fresh_world
       = Some (client_Do down_client status_request (emit (HttpDo status_request) fresh_world))"
proof -
  let ?W = "snd (the (httpDo refusing_client status_request fresh_world))"
  have a: "0 < retryInterval refusing_client \<and> retryInterval refusing_client < retryTimeout refusing_client
     \<and> int64 (retryInterval refusing_client) \<and> retryTimeout refusing_client < 2 ^ 63
     \<and> is_net_Error (fst (httpClient refusing_client (ndo fresh_world) status_request))
     \<and> sat64 (int (snd (httpClient refusing_client (ndo fresh_world) status_request)))
         < retryTimeout refusing_client"
    by (simp add: refusing_client_def int64_def sat64_def)
  from C3_retry_policy [of refusing_client status_request fresh_world] a
  have t: "\<exists>y. httpDo refusing_client status_request fresh_world = Some y"
    by blast
  from C3_retry_policy [of refusing_client _ _ _ _ 100] a
  have sl: "sleep_arg refusing_client 100 = 400"
    by (simp add: refusing_client_def sat64_def)
  have b: "httpDo refusing_client status_request fresh_world = Some (Inl (NetError ''refused''), ?W)"
    by code_simp
  have c: "ndo ?W = 3 \<and> now ?W = 1100"
    by code_simp
  have n0: "ndo fresh_world = 0"
    by (simp add: fresh_world_def)
  from C3_retry_policy [of refusing_client status_request fresh_world "Inl (NetError ''refused'')" ?W]
    a b n0
  have d: "\<exists>k. 1 \<le> k \<and> ndo ?W = Suc k
         \<and> retryTimeout refusing_client \<le> sat64 (retry_time refusing_client status_request 0 k)"
    by auto
  have e: "\<not> is_net_Error (fst (httpClient partial_client (ndo fresh_world) status_request))"
    by (simp add: partial_client_def fresh_world_def scripted_def)
  from C3_retry_policy [of partial_client status_request fresh_world] e
  have f: "httpDo partial_client status_request fresh_world
       = Some (client_Do partial_client status_request (emit (HttpDo status_request) fresh_world))"
    by blast
  have g: "retryTimeout down_client \<le> 0"
    by (simp add: down_client_def)
  from C3_retry_policy [of down_client status_request fresh_world] g
  have h: "httpDo down_client status_request fresh_world
       = Some (client_Do down_client status_request (emit (HttpDo status_request) fresh_world))"
    by blast
  from a b c d e f g h t sl show ?thesis by blast
qed

subsection \<open>The events of httpDo and of a login\<close>

lemma new_events_append: "events w' = events w @ evs \<Longrightarrow> new_events w w' = evs"
  by (simp add: new_events_def)













subsection \<open>The paths through doHttpRequest\<close>







subsection \<open>Re-login and retry in doHttpRequest\<close>




subsection \<open>Cookies and the token\<close>

text \<open>
  Claim C4 says that a request of a call that is not a login carries no cookie when the
  coordinator's token is empty. The first request obeys this (the cookie is added only if
  the token read is not empty); the request sent again after a re-login gets the cookie
  without that test. With a second caller whose \<open>SetAuthToken("")\<close> is served between this
  caller's re-login and its read of the token, the retried request carries the cookie
  AuthCookie with an empty value while the coordinator's token is empty.
\<close>

theorem C4_retried_request_has_empty_cookie:
  "doHttpRequest ex_lib (gateway_client session_gateway) ''site_info'' ''GET'' None [] raced_world
     = Some ((None, Some (AuthFailure \<lparr>Scheme = ''https'', Host = ''teg'', Path = ''api/site_info''\<rparr> [] [])),
             \<lparr>now = 3, authToken = [], ndo = 3,
              events =
                [(''stale'', TokenRead),
                 (''stale'', HttpDo (site_info_request\<lparr>Cookies := [(''AuthCookie'', ''stale'')]\<rparr>)),
                 (''stale'', Sent 0 (site_info_request\<lparr>Cookies := [(''AuthCookie'', ''stale'')]\<rparr>)),
                 (''stale'', AuthMsg cmd_DO_LOGIN),
                 (''stale'', HttpDo login_request),
                 (''stale'', Sent 1 login_request),
                 ([], TokenRead),
                 ([], HttpDo (site_info_request\<lparr>Cookies := [(''AuthCookie'', [])]\<rparr>)),
                 ([], Sent 2 (site_info_request\<lparr>Cookies := [(''AuthCookie'', [])]\<rparr>))],
              others = []\<rparr>)
   \<and> \<not> cookies_ok ex_lib ([], HttpDo (site_info_request\<lparr>Cookies := [(''AuthCookie'', [])]\<rparr>))"
proof
  show "doHttpRequest ex_lib (gateway_client session_gateway) ''site_info'' ''GET'' None [] raced_world
     = Some ((None, Some (AuthFailure \<lparr>Scheme = ''https'', Host = ''teg'', Path = ''api/site_info''\<rparr> [] [])),
             \<lparr>now = 3, authToken = [], ndo = 3,
              events =
                [(''stale'', TokenRead),
                 (''stale'', HttpDo (site_info_request\<lparr>Cookies := [(''AuthCookie'', ''stale'')]\<rparr>)),
                 (''stale'', Sent 0 (site_info_request\<lparr>Cookies := [(''AuthCookie'', ''stale'')]\<rparr>)),
                 (''stale'', AuthMsg cmd_DO_LOGIN),
                 (''stale'', HttpDo login_request),
                 (''stale'', Sent 1 login_request),
                 ([], TokenRead),
                 ([], HttpDo (site_info_request\<lparr>Cookies := [(''AuthCookie'', [])]\<rparr>)),
                 ([], Sent 2 (site_info_request\<lparr>Cookies := [(''AuthCookie'', [])]\<rparr>))],
              others = []\<rparr>)"
    by code_simp
  show "\<not> cookies_ok ex_lib ([], HttpDo (site_info_request\<lparr>Cookies := [(''AuthCookie'', [])]\<rparr>))"
    by (simp add: cookie_rule_def site_info_request_def)
qed

subsection \<open>NonIsoTime\<close>




subsection \<open>DecodedAlert\<close>




end
